theory Spec2Isabelle
  imports Main "HOL-Library.Multiset"
begin

section \<open>Data model of \<^verbatim>\<open>app/main.py\<close>\<close>

text \<open>
  The application is a FastAPI service over two SQLAlchemy tables. The embedding keeps the
  bodies of the request handlers and makes their environment explicit:
  \<^item> the database session \<^verbatim>\<open>db\<close> is a record of the two tables, each a list of rows in
    the order the rows were inserted; a handler that commits returns the new tables;
  \<^item> \<^verbatim>\<open>raise HTTPException(...)\<close> is the left summand of the handler's result;
  \<^item> a handler is a function of the user object it receives as \<^verbatim>\<open>user\<close>; what the declared
    dependency does before the handler runs is the subject of the section on tokens;
  \<^item> request bodies arrive already validated by their pydantic schema, so a payload is a
    value of the schema's record type.
\<close>

datatype HTTPException = HTTPException (status_code: int) (detail: string)

text \<open>
  \<^verbatim>\<open>datetime.date\<close> and \<^verbatim>\<open>datetime.datetime\<close>: a date and a time of day. The schema
  \<^verbatim>\<open>ContactCreate\<close> declares \<^verbatim>\<open>birthday: datetime\<close>, the table declares
  \<^verbatim>\<open>birthday = Column(Date)\<close>: a stored birthday holds the date only.
\<close>

datatype date = Date (year: int) (month: int) (day: int)

datatype datetime =
  Datetime (date_of: date) (hour: int) (minute: int) (second: int) (microsecond: int)

text \<open>The pydantic schema \<^verbatim>\<open>ContactCreate\<close>; \<^verbatim>\<open>ContactUpdate\<close> subclasses it and adds nothing.\<close>

record ContactCreate =
  first_name :: string
  last_name :: string
  email :: string
  phone_number :: string
  birthday :: datetime
  additional_info :: "string option"

type_synonym ContactUpdate = ContactCreate

text \<open>A row of the table \<^verbatim>\<open>contacts\<close> (class \<^verbatim>\<open>Contact\<close>).\<close>

record Contact =
  id :: int
  first_name :: string
  last_name :: string
  email :: string
  phone_number :: string
  birthday :: date
  additional_info :: "string option"
  owner_id :: int

text \<open>
  A row of the table \<^verbatim>\<open>user\<close> (class \<^verbatim>\<open>UserDB\<close>). The class body in the source declares
  no column; the columns are the ones the handlers and schemas read and write
  (\<^verbatim>\<open>id\<close>, \<^verbatim>\<open>email\<close>, \<^verbatim>\<open>hashed_password\<close>, \<^verbatim>\<open>is_active\<close>, \<^verbatim>\<open>is_superuser\<close>, \<^verbatim>\<open>avatar\<close>).
\<close>

record UserDB =
  id :: int
  email :: string
  hashed_password :: string
  is_active :: bool
  is_superuser :: bool
  avatar :: "string option"

record db =
  users :: "UserDB list"
  contacts :: "Contact list"

section \<open>Contact handlers\<close>

text \<open>
  The primary key \<^verbatim>\<open>Column(Integer, primary_key=True)\<close> is filled in by the database on
  insert. The model takes one more than the largest key in the table (keys start at 1);
  the theorems below only use that the key is not in the table yet.
\<close>

definition next_id :: "int list \<Rightarrow> int" where
  "next_id ks = fold max ks 0 + 1"

text \<open>
  \<^verbatim>\<open>db.query(Contact).filter(Contact.id == contact_id, Contact.owner_id == user.id).first()\<close>:
  the first row that satisfies both conditions, \<^verbatim>\<open>None\<close> when there is none.
\<close>

definition query_contact :: "int \<Rightarrow> db \<Rightarrow> UserDB \<Rightarrow> Contact option" where
  "query_contact contact_id s user =
     find (\<lambda>c. Contact.id c = contact_id \<and> Contact.owner_id c = UserDB.id user) (contacts s)"

text \<open>
  \<^verbatim>\<open>create_contact\<close>: \<^verbatim>\<open>Contact(**contact.dict(), owner_id=user.id)\<close>, then add, commit and
  refresh. The refreshed object carries the key the database chose and the birthday as the
  \<^verbatim>\<open>Date\<close> column holds it.
\<close>

definition create_contact :: "ContactCreate \<Rightarrow> db \<Rightarrow> UserDB \<Rightarrow> Contact \<times> db" where
  "create_contact contact s user =
     (let db_contact =
        \<lparr>Contact.id = next_id (map Contact.id (contacts s)),
         first_name = ContactCreate.first_name contact,
         last_name = ContactCreate.last_name contact,
         email = ContactCreate.email contact,
         phone_number = ContactCreate.phone_number contact,
         birthday = date_of (ContactCreate.birthday contact),
         additional_info = ContactCreate.additional_info contact,
         owner_id = UserDB.id user\<rparr>
      in (db_contact, s\<lparr>contacts := contacts s @ [db_contact]\<rparr>))"

text \<open>\<^verbatim>\<open>read_contact\<close>: 404 when the owner-filtered query finds nothing.\<close>

definition read_contact :: "int \<Rightarrow> db \<Rightarrow> UserDB \<Rightarrow> HTTPException + Contact" where
  "read_contact contact_id s user =
     (case query_contact contact_id s user of
        None \<Rightarrow> Inl (HTTPException 404 ''Contact not found'')
      | Some contact \<Rightarrow> Inr contact)"

text \<open>
  The loop \<^verbatim>\<open>for key, value in contact.dict().items(): setattr(db_contact, key, value)\<close>
  runs over the six fields of the schema; after commit and refresh the birthday is the date
  the column holds.
\<close>

definition set_fields :: "Contact \<Rightarrow> ContactUpdate \<Rightarrow> Contact" where
  "set_fields db_contact contact =
     db_contact
       \<lparr>Contact.first_name := ContactCreate.first_name contact,
        Contact.last_name := ContactCreate.last_name contact,
        Contact.email := ContactCreate.email contact,
        Contact.phone_number := ContactCreate.phone_number contact,
        Contact.birthday := date_of (ContactCreate.birthday contact),
        Contact.additional_info := ContactCreate.additional_info contact\<rparr>"

text \<open>
  \<^verbatim>\<open>update_contact\<close>: the commit writes the six attributes back to the row with the object's
  primary key (\<^verbatim>\<open>UPDATE contacts SET ... WHERE contacts.id = ?\<close>); every row keeps its place.
  The refreshed object is returned.
\<close>

definition update_contact ::
  "int \<Rightarrow> ContactUpdate \<Rightarrow> db \<Rightarrow> UserDB \<Rightarrow> (HTTPException + Contact) \<times> db" where
  "update_contact contact_id contact s user =
     (case query_contact contact_id s user of
        None \<Rightarrow> (Inl (HTTPException 404 ''Contact not found''), s)
      | Some db_contact \<Rightarrow>
          (Inr (set_fields db_contact contact),
           s\<lparr>contacts :=
               map (\<lambda>r. if Contact.id r = Contact.id db_contact then set_fields r contact else r)
                 (contacts s)\<rparr>))"

text \<open>
  \<^verbatim>\<open>delete_contact\<close>: \<^verbatim>\<open>db.delete(db_contact)\<close> and the commit remove the row with the
  object's primary key (\<^verbatim>\<open>DELETE FROM contacts WHERE contacts.id = ?\<close>); the handler returns
  the object as it was loaded.
\<close>

definition delete_contact :: "int \<Rightarrow> db \<Rightarrow> UserDB \<Rightarrow> (HTTPException + Contact) \<times> db" where
  "delete_contact contact_id s user =
     (case query_contact contact_id s user of
        None \<Rightarrow> (Inl (HTTPException 404 ''Contact not found''), s)
      | Some db_contact \<Rightarrow>
          (Inr db_contact,
           s\<lparr>contacts := filter (\<lambda>r. Contact.id r \<noteq> Contact.id db_contact) (contacts s)\<rparr>))"

text \<open>
  \<^verbatim>\<open>read_contacts\<close>: the rows with \<^verbatim>\<open>Contact.owner_id == user.id\<close>, then
  \<^verbatim>\<open>.offset(skip).limit(limit)\<close>. Two things are left to the database behind
  \<^verbatim>\<open>DATABASE_URL\<close> and are parameters here:
  \<^item> the query has no \<^verbatim>\<open>ORDER BY\<close>, so the selected rows come in the order the database
    chooses (\<open>row_order\<close>); PostgreSQL, for one, returns a row that was updated after the
    rows that were not;
  \<^item> \<^verbatim>\<open>OFFSET\<close> and \<^verbatim>\<open>LIMIT\<close> are 64-bit values that are not negative; what happens to a
    \<^verbatim>\<open>skip\<close> or \<^verbatim>\<open>limit\<close> outside that range (the handler passes any Python integer on) is
    \<open>out_of_range\<close>: SQLite and PostgreSQL refuse \<open>2 ^ 63\<close>, PostgreSQL refuses a negative
    value, SQLite reads a negative limit as no limit.
\<close>

definition read_contacts ::
  "(Contact list \<Rightarrow> Contact list) \<Rightarrow>
   (int \<Rightarrow> int \<Rightarrow> Contact list \<Rightarrow> HTTPException + Contact list) \<Rightarrow>
   int \<Rightarrow> int \<Rightarrow> db \<Rightarrow> UserDB \<Rightarrow> HTTPException + Contact list" where
  "read_contacts row_order out_of_range skip limit s user =
     (let rows = row_order (filter (\<lambda>c. Contact.owner_id c = UserDB.id user) (contacts s))
      in if skip < 0 \<or> limit < 0 \<or> 2 ^ 63 \<le> skip \<or> 2 ^ 63 \<le> limit
         then out_of_range skip limit rows
         else Inr (take (nat limit) (drop (nat skip) rows)))"

text \<open>
  The signature \<^verbatim>\<open>skip: int = 0, limit: int = 10\<close>: a query parameter that the request
  leaves out takes its default.
\<close>

definition read_contacts_query ::
  "(Contact list \<Rightarrow> Contact list) \<Rightarrow>
   (int \<Rightarrow> int \<Rightarrow> Contact list \<Rightarrow> HTTPException + Contact list) \<Rightarrow>
   int option \<Rightarrow> int option \<Rightarrow> db \<Rightarrow> UserDB \<Rightarrow> HTTPException + Contact list" where
  "read_contacts_query row_order out_of_range skip limit s user =
     read_contacts row_order out_of_range (case skip of None \<Rightarrow> 0 | Some k \<Rightarrow> k)
       (case limit of None \<Rightarrow> 10 | Some n \<Rightarrow> n) s user"

text \<open>A client that posts the payloads one after the other; the created rows, in order.\<close>

fun create_contacts :: "ContactCreate list \<Rightarrow> db \<Rightarrow> UserDB \<Rightarrow> Contact list \<times> db" where
  "create_contacts [] s user = ([], s)"
| "create_contacts (p # ps) s user =
     (let (c, s') = create_contact p s user;
          (cs, s'') = create_contacts ps s' user
      in (c # cs, s''))"

section \<open>Registration\<close>

record UserCreate =
  email :: string
  password :: string

text \<open>The Python exceptions that the calls below raise.\<close>

datatype exn = TypeError | IntegrityError

text \<open>
  \<^verbatim>\<open>UserManager\<close> does not override \<^verbatim>\<open>validate_password\<close>; the method it inherits from
  \<^verbatim>\<open>BaseUserManager\<close> is \<^verbatim>\<open>validate_password(self, password, user)\<close>, with two required
  parameters, and accepts every password. An argument that a call leaves out is \<open>None\<close>
  here: Python raises \<^verbatim>\<open>TypeError\<close> before the body runs.
\<close>

definition validate_password :: "string \<Rightarrow> UserCreate option \<Rightarrow> exn + unit" where
  "validate_password pwd user =
     (case user of None \<Rightarrow> Inl TypeError | Some u \<Rightarrow> Inr ())"

text \<open>
  \<^verbatim>\<open>user_db_model\<close> is the class \<^verbatim>\<open>UserDB\<close>, and \<^verbatim>\<open>create(self, create_dict)\<close> is an instance
  method of the database adapter that the class inherits. Called on the class with one
  argument, the argument is bound to \<^verbatim>\<open>self\<close> and \<^verbatim>\<open>create_dict\<close> is left out: Python raises
  \<^verbatim>\<open>TypeError\<close> before the body runs. What the adapter stores when it is called with both
  arguments is the parameter \<open>store\<close>; the table \<^verbatim>\<open>user\<close> as the source declares it has no
  email column and no unique constraint.
\<close>

definition user_db_model_create ::
  "(UserDB \<Rightarrow> db \<Rightarrow> exn + UserDB \<times> db) \<Rightarrow> UserDB \<Rightarrow> UserDB option \<Rightarrow> db \<Rightarrow>
   exn + UserDB \<times> db" where
  "user_db_model_create store self create_dict s =
     (case create_dict of None \<Rightarrow> Inl TypeError | Some row \<Rightarrow> store row s)"

text \<open>
  \<^verbatim>\<open>UserManager.create\<close>. Line 105 is \<^verbatim>\<open>await self.validate_password(user.password)\<close>, a call
  with one argument; line 114 is \<^verbatim>\<open>await self.user_db_model.create(db_user)\<close>, a call on the
  class. The \<^verbatim>\<open>except\<close> clause catches \<^verbatim>\<open>IntegrityError\<close> only; an exception that nothing
  catches ends the request with status 500. \<^verbatim>\<open>password_helper.hash\<close> is the parameter
  \<open>hash\<close>. The object is built without a key (the 0 stands for the unset attribute); the
  flag \<^verbatim>\<open>safe\<close> is not read.
\<close>

definition UserManager_create ::
  "(UserDB \<Rightarrow> db \<Rightarrow> exn + UserDB \<times> db) \<Rightarrow> (string \<Rightarrow> string) \<Rightarrow>
   UserCreate \<Rightarrow> bool \<Rightarrow> db \<Rightarrow> (HTTPException + UserDB) \<times> db" where
  "UserManager_create store hash user safe s =
     (case validate_password (UserCreate.password user) None of
        Inl e \<Rightarrow> (Inl (HTTPException 500 ''Internal Server Error''), s)
      | Inr _ \<Rightarrow>
          (let hashed_password = hash (UserCreate.password user);
               db_user = \<lparr>UserDB.id = 0, email = UserCreate.email user,
                          hashed_password = hashed_password,
                          is_active = True, is_superuser = False, avatar = None\<rparr>
           in case user_db_model_create store db_user None s of
                Inr (row, s') \<Rightarrow> (Inr row, s')
              | Inl IntegrityError \<Rightarrow>
                  (Inl (HTTPException 409 ''User with this email already exists''), s)
              | Inl TypeError \<Rightarrow> (Inl (HTTPException 500 ''Internal Server Error''), s)))"

section \<open>Tokens\<close>

record JWTStrategy =
  secret :: string
  lifetime_seconds :: "int option"

definition get_jwt_strategy :: "string \<Rightarrow> JWTStrategy" where
  "get_jwt_strategy SECRET = \<lparr>secret = SECRET, lifetime_seconds = Some 3600\<rparr>"

text \<open>
  Modelled from the spec: the token functions of the class \<^verbatim>\<open>JWTStrategy\<close> of the
  authentication library, which are not in the source. A token names its user, carries the
  expiry time the strategy gave it (issue time plus lifetime, in seconds) and the secret it
  was signed with. Reading a token fails when the signature does not verify, when the expiry
  time has passed, or when the user is unknown.
\<close>

record token =
  sub :: int
  exp :: "int option"
  signed_with :: string

definition write_token :: "JWTStrategy \<Rightarrow> int \<Rightarrow> UserDB \<Rightarrow> token" where
  "write_token strategy now user =
     \<lparr>sub = UserDB.id user,
      exp = map_option (\<lambda>l. now + l) (lifetime_seconds strategy),
      signed_with = secret strategy\<rparr>"

definition read_token :: "JWTStrategy \<Rightarrow> int \<Rightarrow> token \<Rightarrow> db \<Rightarrow> UserDB option" where
  "read_token strategy now t s =
     (if signed_with t \<noteq> secret strategy then None
      else if (case exp t of None \<Rightarrow> False | Some e \<Rightarrow> e \<le> now) then None
      else find (\<lambda>u. UserDB.id u = sub t) (users s))"

text \<open>
  The backend as the source builds it: \<^verbatim>\<open>AuthenticationBackend(name="jwt", transport=None,
  get_strategy=get_jwt_strategy)\<close>. The transport is what takes the bearer token out of a
  request; there is none.
\<close>

datatype transport = BearerTransport string

record AuthenticationBackend =
  name :: string
  transport :: "transport option"
  get_strategy :: JWTStrategy

definition auth_backend :: "string \<Rightarrow> AuthenticationBackend" where
  "auth_backend SECRET =
     \<lparr>name = ''jwt'', transport = None, get_strategy = get_jwt_strategy SECRET\<rparr>"

text \<open>
  The dependency of the protected endpoints. In the library \<^verbatim>\<open>fastapi_users.current_user\<close> is
  a factory that returns the dependency; the endpoints declare
  \<^verbatim>\<open>Depends(fastapi_users.current_user)\<close>, the factory itself, and the backend has no
  transport. No token is read: the dependency raises, nothing catches it, and the request
  ends with status 500. Modelled from the spec: with a transport, a missing, unreadable or
  expired token is answered with 401 and a good one resolves to its user.
\<close>

definition current_user ::
  "AuthenticationBackend \<Rightarrow> int \<Rightarrow> token option \<Rightarrow> db \<Rightarrow> HTTPException + UserDB" where
  "current_user backend now bearer s =
     (case transport backend of
        None \<Rightarrow> Inl (HTTPException 500 ''Internal Server Error'')
      | Some scheme \<Rightarrow>
          (case bearer of
             None \<Rightarrow> Inl (HTTPException 401 ''Unauthorized'')
           | Some t \<Rightarrow>
               (case read_token (get_strategy backend) now t s of
                  None \<Rightarrow> Inl (HTTPException 401 ''Unauthorized'')
                | Some user \<Rightarrow> Inr user)))"

text \<open>
  An endpoint declared with \<^verbatim>\<open>user: UserDB = Depends(fastapi_users.current_user)\<close>: the
  handler runs on what the dependency returns, or the request ends with the dependency's
  error.
\<close>

definition protected ::
  "AuthenticationBackend \<Rightarrow> int \<Rightarrow> token option \<Rightarrow> db \<Rightarrow>
   (UserDB \<Rightarrow> HTTPException + 'a) \<Rightarrow> HTTPException + 'a" where
  "protected backend now bearer s handler =
     (case current_user backend now bearer s of
        Inl e \<Rightarrow> Inl e
      | Inr user \<Rightarrow> handler user)"

section \<open>Avatar upload\<close>

type_synonym bytes = string

text \<open>
  \<^verbatim>\<open>upload_avatar\<close>. The call \<^verbatim>\<open>cloudinary.uploader.upload(file)\<close> is the parameter \<open>upload\<close>:
  it answers with a dictionary, or raises (\<open>None\<close>). An exception that no handler catches,
  the \<^verbatim>\<open>KeyError\<close> of \<^verbatim>\<open>result['url']\<close> included, ends the request with status 500. The
  handler has no database session: it assigns to the attribute of the user object and
  returns; the path parameter \<^verbatim>\<open>user_id\<close> is not read. The model returns the answer, the
  user object and the tables.
\<close>

definition upload_avatar ::
  "(bytes \<Rightarrow> (string \<rightharpoonup> string) option) \<Rightarrow> int \<Rightarrow> bytes \<Rightarrow> UserDB \<Rightarrow> db \<Rightarrow>
   (HTTPException + (string \<times> string) list) \<times> UserDB \<times> db" where
  "upload_avatar upload user_id file user s =
     (case upload file of
        None \<Rightarrow> (Inl (HTTPException 500 ''Internal Server Error''), user, s)
      | Some result \<Rightarrow>
          (case result ''url'' of
             None \<Rightarrow> (Inl (HTTPException 500 ''Internal Server Error''), user, s)
           | Some avatar_url \<Rightarrow>
               (Inr [(''avatar_url'', avatar_url)], user\<lparr>avatar := Some avatar_url\<rparr>, s)))"

section \<open>Responses\<close>

text \<open>
  What the client receives: a status and a JSON body, an object or an array of objects.
  A \<^verbatim>\<open>response_model\<close> reads the fields of its schema from the returned object and nothing
  else; an \<^verbatim>\<open>HTTPException\<close> is answered with its status and \<^verbatim>\<open>{"detail": ...}\<close>.
\<close>

datatype json = JNull | JInt int | JStr string | JDatetime datetime

datatype body = Object "(string \<times> json) list" | Array "(string \<times> json) list list"

datatype response = Response (status: int) (body: body)

fun body_keys :: "body \<Rightarrow> string set" where
  "body_keys (Object kvs) = fst ` set kvs"
| "body_keys (Array os) = (\<Union>kvs \<in> set os. fst ` set kvs)"

definition JOptional :: "string option \<Rightarrow> json" where
  "JOptional v = (case v of None \<Rightarrow> JNull | Some x \<Rightarrow> JStr x)"

text \<open>\<^verbatim>\<open>contact.dict()\<close> for the schema \<^verbatim>\<open>ContactCreate\<close>.\<close>

definition ContactCreate_dict :: "ContactCreate \<Rightarrow> (string \<times> json) list" where
  "ContactCreate_dict contact =
     [(''first_name'', JStr (ContactCreate.first_name contact)),
      (''last_name'', JStr (ContactCreate.last_name contact)),
      (''email'', JStr (ContactCreate.email contact)),
      (''phone_number'', JStr (ContactCreate.phone_number contact)),
      (''birthday'', JDatetime (ContactCreate.birthday contact)),
      (''additional_info'', JOptional (ContactCreate.additional_info contact))]"

text \<open>
  \<^verbatim>\<open>response_model=ContactCreate\<close> applied to a row: the schema's six fields, read from the
  attributes of the same name. The stored date is read into the \<^verbatim>\<open>datetime\<close> field as
  midnight of that day.
\<close>

definition ContactCreate_from_orm :: "Contact \<Rightarrow> ContactCreate" where
  "ContactCreate_from_orm c =
     \<lparr>ContactCreate.first_name = Contact.first_name c,
      last_name = Contact.last_name c,
      email = Contact.email c,
      phone_number = Contact.phone_number c,
      birthday = Datetime (Contact.birthday c) 0 0 0 0,
      additional_info = Contact.additional_info c\<rparr>"

text \<open>The schema \<^verbatim>\<open>UserRead\<close> (\<^verbatim>\<open>id\<close>, \<^verbatim>\<open>email\<close>, \<^verbatim>\<open>avatar\<close>), read from a user row.\<close>

record UserRead =
  id :: int
  email :: string
  avatar :: "string option"

definition UserRead_from_orm :: "UserDB \<Rightarrow> UserRead" where
  "UserRead_from_orm u =
     \<lparr>UserRead.id = UserDB.id u, email = UserDB.email u, avatar = UserDB.avatar u\<rparr>"

definition UserRead_dict :: "UserRead \<Rightarrow> (string \<times> json) list" where
  "UserRead_dict u =
     [(''id'', JInt (UserRead.id u)),
      (''email'', JStr (UserRead.email u)),
      (''avatar'', JOptional (UserRead.avatar u))]"

definition error_response :: "HTTPException \<Rightarrow> response" where
  "error_response e = Response (status_code e) (Object [(''detail'', JStr (detail e))])"

definition contact_response :: "HTTPException + Contact \<Rightarrow> response" where
  "contact_response r =
     (case r of
        Inl e \<Rightarrow> error_response e
      | Inr c \<Rightarrow> Response 200 (Object (ContactCreate_dict (ContactCreate_from_orm c))))"

definition contacts_response :: "HTTPException + Contact list \<Rightarrow> response" where
  "contacts_response r =
     (case r of
        Inl e \<Rightarrow> error_response e
      | Inr cs \<Rightarrow> Response 200 (Array (map (\<lambda>c. ContactCreate_dict (ContactCreate_from_orm c)) cs)))"

definition user_response :: "HTTPException + UserDB \<Rightarrow> response" where
  "user_response r =
     (case r of
        Inl e \<Rightarrow> error_response e
      | Inr u \<Rightarrow> Response 200 (Object (UserRead_dict (UserRead_from_orm u))))"

definition avatar_response :: "HTTPException + (string \<times> string) list \<Rightarrow> response" where
  "avatar_response r =
     (case r of
        Inl e \<Rightarrow> error_response e
      | Inr kvs \<Rightarrow> Response 200 (Object (map (\<lambda>(k, v). (k, JStr v)) kvs)))"

section \<open>Example data\<close>

text \<open>Two users and a payload, for the concrete instances of the theorems below.\<close>

definition user_A :: UserDB where
  "user_A = \<lparr>UserDB.id = 1, email = ''a@example.com'', hashed_password = ''hash-a'',
     is_active = True, is_superuser = False, avatar = None\<rparr>"

definition user_B :: UserDB where
  "user_B = \<lparr>UserDB.id = 2, email = ''b@example.com'', hashed_password = ''hash-b'',
     is_active = True, is_superuser = False, avatar = None\<rparr>"

definition payload_1 :: ContactCreate where
  "payload_1 = \<lparr>ContactCreate.first_name = ''Ada'', last_name = ''Lovelace'',
     email = ''ada@example.com'', phone_number = ''+44 1'',
     birthday = Datetime (Date 1815 12 10) 10 30 0 0, additional_info = None\<rparr>"

definition payload_2 :: ContactCreate where
  "payload_2 = \<lparr>ContactCreate.first_name = ''Alan'', last_name = ''Turing'',
     email = ''alan@example.com'', phone_number = ''+44 2'',
     birthday = Datetime (Date 1912 6 23) 0 0 0 0, additional_info = Some ''Bletchley''\<rparr>"

definition db_0 :: db where
  "db_0 = \<lparr>users = [user_A, user_B], contacts = []\<rparr>"

definition db_1 :: db where
  "db_1 = snd (create_contact payload_2 db_0 user_A)"

definition fifteen :: "ContactCreate list" where
  "fifteen = [payload_1, payload_2, payload_1, payload_2, payload_1,
              payload_2, payload_1, payload_2, payload_1, payload_2,
              payload_1, payload_2, payload_1, payload_2, payload_1]"

text \<open>A database that refuses an offset or a limit outside the 64-bit range.\<close>

definition refuse :: "int \<Rightarrow> int \<Rightarrow> Contact list \<Rightarrow> HTTPException + Contact list" where
  "refuse skip limit rows = Inl (HTTPException 500 ''Internal Server Error'')"

text \<open>A database that returns the rows in table order, and one that returns the row with
  the key \<open>k\<close>, updated last, after the others.\<close>

definition table_order :: "Contact list \<Rightarrow> Contact list" where
  "table_order rows = rows"

definition updated_last :: "int \<Rightarrow> Contact list \<Rightarrow> Contact list" where
  "updated_last k rows =
     filter (\<lambda>c. Contact.id c \<noteq> k) rows @ filter (\<lambda>c. Contact.id c = k) rows"

text \<open>User A creates three contacts, then updates the first.\<close>

definition db_3 :: db where
  "db_3 = snd (update_contact 1 payload_2
            (snd (create_contacts [payload_1, payload_2, payload_1] db_0 user_A)) user_A)"

text \<open>An adapter whose insert finds the email taken.\<close>

definition taken :: "UserDB \<Rightarrow> db \<Rightarrow> exn + UserDB \<times> db" where
  "taken row s = Inl IntegrityError"

definition user_C :: UserCreate where
  "user_C = \<lparr>UserCreate.email = ''c@example.com'', password = ''pw-1''\<rparr>"

definition host :: "bytes \<Rightarrow> (string \<rightharpoonup> string) option" where
  "host file = Some (map_of [(''public_id'', ''p1''), (''url'', ''http://img.example/'' @ file)])"

section \<open>Lemmas on keys and the owner-filtered query\<close>

lemma fold_max_ge: "(m::int) \<le> fold max ks m"
  by (induction ks arbitrary: m) (auto intro: order_trans [OF max.cobounded2])

lemma fold_max_mem: "k \<in> set ks \<Longrightarrow> (k::int) \<le> fold max ks m"
proof (induction ks arbitrary: m)
  case Nil
  then show ?case by simp
next
  case (Cons a ks)
  show ?case
  proof (cases "k = a")
    case True
    have "a \<le> max a m" by simp
    also have "\<dots> \<le> fold max ks (max a m)" by (rule fold_max_ge)
    finally show ?thesis using True by simp
  next
    case False
    with Cons show ?thesis by simp
  qed
qed

lemma next_id_fresh: "next_id ks \<notin> set ks"
  using fold_max_mem [of "next_id ks" ks 0] by (auto simp: next_id_def)

lemma find_unique_key:
  assumes "distinct (map k xs)" and "c \<in> set xs" and "P c" and "\<And>x. P x \<Longrightarrow> k x = k c"
  shows "find P xs = Some c"
proof -
  from assms(2,3) have "find P xs \<noteq> None" by (auto simp: find_None_iff)
  then obtain x where x: "find P xs = Some x" by blast
  then have "x \<in> set xs" "P x" by (auto simp: find_Some_iff)
  with assms(4) have "k x = k c" by simp
  moreover from assms(1) have "inj_on k (set xs)" by (simp add: distinct_map)
  ultimately have "x = c" using \<open>x \<in> set xs\<close> assms(2) by (simp add: inj_on_eq_iff)
  with x show ?thesis by simp
qed

lemma filter_other_keys:
  assumes "distinct (map k xs)" and "c \<in> set xs"
  shows "filter (\<lambda>r. k r \<noteq> k c) xs = filter (\<lambda>r. r \<noteq> c) xs"
proof (rule filter_cong [OF refl])
  fix r assume "r \<in> set xs"
  moreover from assms(1) have "inj_on k (set xs)" by (simp add: distinct_map)
  ultimately show "(k r \<noteq> k c) = (r \<noteq> c)" using assms(2) by (simp add: inj_on_eq_iff)
qed

lemma map_only_key:
  assumes "distinct (map k xs)" and "c \<in> set xs"
  shows "map (\<lambda>r. if k r = k c then g r else r) xs = map (\<lambda>r. if r = c then g c else r) xs"
proof (rule map_cong [OF refl])
  fix r assume "r \<in> set xs"
  moreover from assms(1) have "inj_on k (set xs)" by (simp add: distinct_map)
  ultimately have "(k r = k c) = (r = c)" using assms(2) by (simp add: inj_on_eq_iff)
  then show "(if k r = k c then g r else r) = (if r = c then g c else r)" by auto
qed

lemma filter_key_distinct:
  "distinct (map f xs) \<Longrightarrow> x \<in> set xs \<Longrightarrow> filter (\<lambda>u. f u = f x) xs = [x]"
proof (induction xs)
  case Nil
  then show ?case by simp
next
  case (Cons a xs)
  show ?case
  proof (cases "a = x")
    case True
    from Cons.prems have "f a \<notin> f ` set xs" by simp
    with True have "\<forall>u \<in> set xs. f u \<noteq> f x" by (metis imageI)
    then have "filter (\<lambda>u. f u = f x) xs = []" by (simp add: filter_empty_conv)
    with True show ?thesis by simp
  next
    case False
    with Cons.prems have "x \<in> set xs" "f a \<noteq> f x" by auto
    with Cons show ?thesis by simp
  qed
qed

lemma query_contact_None_iff:
  "query_contact contact_id s user = None \<longleftrightarrow>
     (\<forall>c \<in> set (contacts s). Contact.id c = contact_id \<longrightarrow> Contact.owner_id c \<noteq> UserDB.id user)"
  by (auto simp: query_contact_def find_None_iff)

lemma query_contact_SomeD:
  "query_contact contact_id s user = Some c \<Longrightarrow>
     c \<in> set (contacts s) \<and> Contact.id c = contact_id \<and> Contact.owner_id c = UserDB.id user"
  by (auto simp: query_contact_def find_Some_iff)

lemma query_contact_owned:
  assumes "distinct (map Contact.id (contacts s))" and "c \<in> set (contacts s)"
      and "Contact.owner_id c = UserDB.id user"
  shows "query_contact (Contact.id c) s user = Some c"
  unfolding query_contact_def
  by (rule find_unique_key [where k = Contact.id]) (use assms in simp_all)

lemma set_fields_keeps:
  "Contact.id (set_fields r f) = Contact.id r"
  "Contact.owner_id (set_fields r f) = Contact.owner_id r"
  by (simp_all add: set_fields_def)

section \<open>The primary keys stay distinct\<close>

lemma create_contact_keys:
  "distinct (map Contact.id (contacts s)) \<Longrightarrow>
   distinct (map Contact.id (contacts (snd (create_contact p s user))))"
  using next_id_fresh [of "map Contact.id (contacts s)"]
  by (simp add: create_contact_def Let_def)

lemma update_contact_keys:
  "map Contact.id (contacts (snd (update_contact contact_id f s user))) = map Contact.id (contacts s)"
  by (cases "query_contact contact_id s user")
     (simp_all add: update_contact_def comp_def if_distrib [of Contact.id] set_fields_keeps
        cong: if_cong)

lemma delete_contact_keys:
  "distinct (map Contact.id (contacts s)) \<Longrightarrow>
   distinct (map Contact.id (contacts (snd (delete_contact contact_id s user))))"
  by (cases "query_contact contact_id s user")
     (simp_all add: delete_contact_def distinct_map_filter)

section \<open>The caller's rows: creation appends, the page is cut from what the database returns\<close>

lemma owned_create_contact:
  "filter (\<lambda>c. Contact.owner_id c = UserDB.id user) (contacts (snd (create_contact p s user)))
     = filter (\<lambda>c. Contact.owner_id c = UserDB.id user) (contacts s) @ [fst (create_contact p s user)]"
  by (simp add: create_contact_def Let_def)

lemma owned_create_contacts:
  "filter (\<lambda>c. Contact.owner_id c = UserDB.id user) (contacts (snd (create_contacts ps s user)))
     = filter (\<lambda>c. Contact.owner_id c = UserDB.id user) (contacts s) @ fst (create_contacts ps s user)"
proof (induction ps arbitrary: s)
  case Nil
  then show ?case by simp
next
  case (Cons p ps)
  have "filter (\<lambda>c. Contact.owner_id c = UserDB.id user) (contacts (snd (create_contacts (p # ps) s user)))
        = filter (\<lambda>c. Contact.owner_id c = UserDB.id user) (contacts (snd (create_contacts ps (snd (create_contact p s user)) user)))"
    by (simp add: split_beta Let_def)
  also have "\<dots> = filter (\<lambda>c. Contact.owner_id c = UserDB.id user) (contacts (snd (create_contact p s user)))
                   @ fst (create_contacts ps (snd (create_contact p s user)) user)"
    by (rule Cons.IH)
  also have "\<dots> = filter (\<lambda>c. Contact.owner_id c = UserDB.id user) (contacts s) @ fst (create_contacts (p # ps) s user)"
    by (simp add: owned_create_contact split_beta Let_def)
  finally show ?case .
qed

lemma length_create_contacts: "length (fst (create_contacts ps s user)) = length ps"
  by (induction ps arbitrary: s) (simp_all add: split_beta Let_def)

lemma read_contacts_in_range:
  "0 \<le> skip \<Longrightarrow> skip < 2 ^ 63 \<Longrightarrow> 0 \<le> limit \<Longrightarrow> limit < 2 ^ 63 \<Longrightarrow>
   read_contacts row_order out_of_range skip limit s user
     = Inr (take (nat limit) (drop (nat skip) (row_order (filter (\<lambda>c. Contact.owner_id c = UserDB.id user) (contacts s)))))"
  by (simp add: read_contacts_def Let_def)

lemma page_subset:
  assumes "mset (row_order rows) = mset rows"
  shows "set (take n (drop k (row_order rows))) \<subseteq> set rows"
proof -
  have "set (take n (drop k (row_order rows))) \<subseteq> set (row_order rows)"
    by (meson set_take_subset set_drop_subset subset_trans)
  also have "\<dots> = set rows" using assms by (rule mset_eq_setD)
  finally show ?thesis .
qed

section \<open>Field names of the responses\<close>

lemma keys_ContactCreate_dict:
  "fst ` set (ContactCreate_dict p)
     = {''first_name'', ''last_name'', ''email'', ''phone_number'', ''birthday'', ''additional_info''}"
  by (simp add: ContactCreate_dict_def)

lemma id_not_in_contact_response:
  "''id'' \<notin> body_keys (body (contact_response r))"
  by (cases r) (simp_all add: contact_response_def error_response_def keys_ContactCreate_dict)

lemma id_not_in_contacts_response:
  "''id'' \<notin> body_keys (body (contacts_response r))"
  by (cases r) (simp_all add: contacts_response_def error_response_def keys_ContactCreate_dict)

lemma from_orm_ignores_id:
  "ContactCreate_from_orm (c\<lparr>Contact.id := k\<rparr>) = ContactCreate_from_orm c"
  by (simp add: ContactCreate_from_orm_def)

lemma hash_not_in_contact_response:
  "''hashed_password'' \<notin> body_keys (body (contact_response r))"
  by (cases r) (simp_all add: contact_response_def error_response_def keys_ContactCreate_dict)

lemma hash_not_in_contacts_response:
  "''hashed_password'' \<notin> body_keys (body (contacts_response r))"
  by (cases r) (simp_all add: contacts_response_def error_response_def keys_ContactCreate_dict)

lemma hash_not_in_user_response:
  "''hashed_password'' \<notin> body_keys (body (user_response r))"
  by (cases r) (simp_all add: user_response_def error_response_def UserRead_dict_def)

lemma hash_not_in_avatar_response:
  "''hashed_password''
     \<notin> body_keys (body (avatar_response (fst (upload_avatar upload user_id file user s))))"
  by (simp add: avatar_response_def upload_avatar_def error_response_def split: option.splits)

lemma db_1_contacts:
  "contacts db_1 =
     [\<lparr>Contact.id = 1, first_name = ''Alan'', last_name = ''Turing'', email = ''alan@example.com'',
       phone_number = ''+44 2'', birthday = Date 1912 6 23, additional_info = Some ''Bletchley'',
       owner_id = 1\<rparr>]"
  by (simp add: db_1_def create_contact_def db_0_def next_id_def payload_2_def user_A_def Let_def)

lemma db_3_contacts:
  "contacts db_3 =
     [\<lparr>Contact.id = 1, first_name = ''Alan'', last_name = ''Turing'', email = ''alan@example.com'',
       phone_number = ''+44 2'', birthday = Date 1912 6 23, additional_info = Some ''Bletchley'',
       owner_id = 1\<rparr>,
      \<lparr>Contact.id = 2, first_name = ''Alan'', last_name = ''Turing'', email = ''alan@example.com'',
       phone_number = ''+44 2'', birthday = Date 1912 6 23, additional_info = Some ''Bletchley'',
       owner_id = 1\<rparr>,
      \<lparr>Contact.id = 3, first_name = ''Ada'', last_name = ''Lovelace'', email = ''ada@example.com'',
       phone_number = ''+44 1'', birthday = Date 1815 12 10, additional_info = None,
       owner_id = 1\<rparr>]"
  by (simp add: db_3_def update_contact_def query_contact_def set_fields_def create_contact_def
        db_0_def next_id_def payload_1_def payload_2_def user_A_def Let_def)

lemma created_fifteen:
  "map Contact.id (fst (create_contacts fifteen db_0 user_A))
     = [1, 2, 3, 4, 5, 6, 7, 8, 9, 10, 11, 12, 13, 14, 15]"
  by (simp add: fifteen_def create_contact_def db_0_def next_id_def Let_def)

lemma row_1_owned:
  "distinct (map Contact.id (contacts db_1))"
  "fst (create_contact payload_2 db_0 user_A) \<in> set (contacts db_1)"
  "Contact.owner_id (fst (create_contact payload_2 db_0 user_A)) = UserDB.id user_A"
  "Contact.id (fst (create_contact payload_2 db_0 user_A)) = 1"
  by (simp_all add: db_1_def create_contact_def db_0_def next_id_def Let_def)

section \<open>Claims\<close>


text \<open>
  C1. When no contact with the requested id belongs to the caller (there is no such contact,
  or its owner is another user), reading, updating and deleting it each fail with
  404 "Contact not found", and the tables are left as they were.
\<close>

theorem not_owned_is_not_found:
  assumes "\<forall>c \<in> set (contacts s). Contact.id c = contact_id \<longrightarrow> Contact.owner_id c \<noteq> UserDB.id user"
  shows "read_contact contact_id s user = Inl (HTTPException 404 ''Contact not found'')
       \<and> update_contact contact_id contact s user = (Inl (HTTPException 404 ''Contact not found''), s)
       \<and> delete_contact contact_id s user = (Inl (HTTPException 404 ''Contact not found''), s)"
proof -
  from assms have "query_contact contact_id s user = None"
    by (simp add: query_contact_None_iff)
  then show ?thesis
    by (simp add: read_contact_def update_contact_def delete_contact_def)
qed

text \<open>User A creates a contact; user B asks for it by its id and gets 404 three times.\<close>

theorem not_owned_is_not_found_witness:
  "fst (create_contact payload_1 db_0 user_A) \<in> set (contacts (snd (create_contact payload_1 db_0 user_A)))
   \<and> Contact.id (fst (create_contact payload_1 db_0 user_A)) = 1
   \<and> read_contact 1 (snd (create_contact payload_1 db_0 user_A)) user_B
       = Inl (HTTPException 404 ''Contact not found'')
   \<and> update_contact 1 payload_2 (snd (create_contact payload_1 db_0 user_A)) user_B
       = (Inl (HTTPException 404 ''Contact not found''), snd (create_contact payload_1 db_0 user_A))
   \<and> delete_contact 1 (snd (create_contact payload_1 db_0 user_A)) user_B
       = (Inl (HTTPException 404 ''Contact not found''), snd (create_contact payload_1 db_0 user_A))"
proof -
  have h: "\<forall>c \<in> set (contacts (snd (create_contact payload_1 db_0 user_A))).
             Contact.id c = 1 \<longrightarrow> Contact.owner_id c \<noteq> UserDB.id user_B"
    by (simp add: create_contact_def db_0_def user_A_def user_B_def Let_def)
  show ?thesis
    using not_owned_is_not_found [OF h, of payload_2]
    by (simp add: create_contact_def db_0_def next_id_def Let_def)
qed

text \<open>
  C2. The registration does not reach its 409. For every input, the email of a stored user
  included, the call of \<^verbatim>\<open>validate_password\<close> with one argument raises \<^verbatim>\<open>TypeError\<close>, which
  the \<^verbatim>\<open>except IntegrityError\<close> clause does not catch: the request ends with status 500 and
  nothing is stored. Here user A's email is registered a second time, whatever the adapter
  would do with the insert.
\<close>

theorem register_duplicate_is_500:
  "user_A \<in> set (users db_0)
   \<and> UserManager_create store hash
        \<lparr>UserCreate.email = UserDB.email user_A, password = ''pw-2''\<rparr> safe db_0
       = (Inl (HTTPException 500 ''Internal Server Error''), db_0)
   \<and> UserManager_create taken hash
        \<lparr>UserCreate.email = UserDB.email user_A, password = ''pw-2''\<rparr> safe db_0
       \<noteq> (Inl (HTTPException 409 ''User with this email already exists''), db_0)"
  by (simp add: UserManager_create_def validate_password_def db_0_def)

text \<open>
  C3 as stated fails. The query asks for no order, so the page follows the order in which
  the database returns the rows: user A creates three contacts and updates the first; on a
  database that returns the updated row last, the list is 2, 3, 1 and not the insertion
  order 1, 2, 3. And the handler passes any integer on: on a database that refuses values
  outside the 64-bit range, a limit of \<open>2 ^ 63\<close> or a skip of \<open>-1\<close> is answered with an error,
  not with a page.
\<close>

theorem read_contacts_not_in_insertion_order:
  "map Contact.id (filter (\<lambda>c. Contact.owner_id c = UserDB.id user_A) (contacts db_3)) = [1, 2, 3]
   \<and> map_sum status_code (map Contact.id) (read_contacts (updated_last 1) refuse 0 10 db_3 user_A)
       = Inr [2, 3, 1]
   \<and> read_contacts table_order refuse 0 (2 ^ 63) db_3 user_A
       = Inl (HTTPException 500 ''Internal Server Error'')
   \<and> read_contacts table_order refuse (- 1) 10 db_3 user_A
       = Inl (HTTPException 500 ''Internal Server Error'')"
  by (simp add: read_contacts_def db_3_contacts user_A_def updated_last_def refuse_def Let_def)

text \<open>
  C3, as amended. On a database that returns exactly the selected rows, in whatever order,
  and for a skip and a limit from 0 up to \<open>2 ^ 63 - 1\<close>: the list endpoint answers with a
  page of the caller's contacts and of nothing else, cut from the rows in the order the
  database returns them, from position skip on and at most limit of them; the handler puts
  no bound of its own on limit, so a limit that covers the remaining rows returns them all,
  and with skip 0 every contact of the caller. A contact that the caller creates goes to the
  end of the caller's rows in the table. Without query parameters skip is 0 and limit is 10.
  After a caller with no contacts has created 15, skip 10 and limit 10 give exactly 5 of the
  created contacts; they are the last 5 in creation order when the database returns the
  rows in table order.
\<close>

theorem read_contacts_page:
  assumes "\<forall>rows. mset (row_order rows) = mset rows"
  shows
  "(\<forall>skip limit. 0 \<le> skip \<and> skip < 2 ^ 63 \<and> 0 \<le> limit \<and> limit < 2 ^ 63 \<longrightarrow>
      (\<exists>page. read_contacts row_order out_of_range skip limit s user = Inr page
         \<and> page = take (nat limit) (drop (nat skip) (row_order (filter (\<lambda>c. Contact.owner_id c = UserDB.id user) (contacts s))))
         \<and> length page \<le> nat limit
         \<and> (\<forall>c \<in> set page. c \<in> set (contacts s) \<and> Contact.owner_id c = UserDB.id user)
         \<and> (length (filter (\<lambda>c. Contact.owner_id c = UserDB.id user) (contacts s)) \<le> nat skip + nat limit \<longrightarrow>
              page = drop (nat skip) (row_order (filter (\<lambda>c. Contact.owner_id c = UserDB.id user) (contacts s))))
         \<and> (skip = 0 \<and> length (filter (\<lambda>c. Contact.owner_id c = UserDB.id user) (contacts s)) \<le> nat limit \<longrightarrow>
              mset page = mset (filter (\<lambda>c. Contact.owner_id c = UserDB.id user) (contacts s)))))
   \<and> (\<forall>p. filter (\<lambda>c. Contact.owner_id c = UserDB.id user) (contacts (snd (create_contact p s user)))
           = filter (\<lambda>c. Contact.owner_id c = UserDB.id user) (contacts s) @ [fst (create_contact p s user)])
   \<and> read_contacts_query row_order out_of_range None None s user
       = read_contacts row_order out_of_range 0 10 s user
   \<and> (\<forall>ps. filter (\<lambda>c. Contact.owner_id c = UserDB.id user) (contacts s) = [] \<and> length ps = 15 \<longrightarrow>
         (\<exists>page. read_contacts row_order out_of_range 10 10 (snd (create_contacts ps s user)) user
                   = Inr page
            \<and> length page = 5
            \<and> set page \<subseteq> set (fst (create_contacts ps s user)))
         \<and> read_contacts (\<lambda>rows. rows) out_of_range 10 10 (snd (create_contacts ps s user)) user
             = Inr (drop 10 (fst (create_contacts ps s user))))"
proof (intro conjI allI impI)
  fix skip limit :: int
  assume r: "0 \<le> skip \<and> skip < 2 ^ 63 \<and> 0 \<le> limit \<and> limit < 2 ^ 63"
  let ?rows = "filter (\<lambda>c. Contact.owner_id c = UserDB.id user) (contacts s)"
  let ?page = "take (nat limit) (drop (nat skip) (row_order ?rows))"
  have m: "mset (row_order ?rows) = mset ?rows" using assms by blast
  have l: "length (row_order ?rows) = length ?rows" using m by (rule mset_eq_length)
  have 1: "read_contacts row_order out_of_range skip limit s user = Inr ?page"
    using r by (simp add: read_contacts_in_range)
  have 2: "length ?page \<le> nat limit" by simp
  have 3: "\<forall>c \<in> set ?page. c \<in> set (contacts s) \<and> Contact.owner_id c = UserDB.id user"
    using page_subset [of row_order ?rows "nat limit" "nat skip"] m by auto
  have 4: "length ?rows \<le> nat skip + nat limit \<longrightarrow> ?page = drop (nat skip) (row_order ?rows)"
    using l by simp
  have 5: "skip = 0 \<and> length ?rows \<le> nat limit \<longrightarrow> mset ?page = mset ?rows"
    using l m by simp
  from 1 2 3 4 5
  show "\<exists>page. read_contacts row_order out_of_range skip limit s user = Inr page
         \<and> page = take (nat limit) (drop (nat skip) (row_order (filter (\<lambda>c. Contact.owner_id c = UserDB.id user) (contacts s))))
         \<and> length page \<le> nat limit
         \<and> (\<forall>c \<in> set page. c \<in> set (contacts s) \<and> Contact.owner_id c = UserDB.id user)
         \<and> (length (filter (\<lambda>c. Contact.owner_id c = UserDB.id user) (contacts s)) \<le> nat skip + nat limit \<longrightarrow>
              page = drop (nat skip) (row_order (filter (\<lambda>c. Contact.owner_id c = UserDB.id user) (contacts s))))
         \<and> (skip = 0 \<and> length (filter (\<lambda>c. Contact.owner_id c = UserDB.id user) (contacts s)) \<le> nat limit \<longrightarrow>
              mset page = mset (filter (\<lambda>c. Contact.owner_id c = UserDB.id user) (contacts s)))"
    by blast
next
  fix p :: ContactCreate
  show "filter (\<lambda>c. Contact.owner_id c = UserDB.id user) (contacts (snd (create_contact p s user)))
           = filter (\<lambda>c. Contact.owner_id c = UserDB.id user) (contacts s) @ [fst (create_contact p s user)]"
    by (rule owned_create_contact)
next
  show "read_contacts_query row_order out_of_range None None s user
       = read_contacts row_order out_of_range 0 10 s user"
    by (simp add: read_contacts_query_def)
next
  fix ps :: "ContactCreate list"
  assume a: "filter (\<lambda>c. Contact.owner_id c = UserDB.id user) (contacts s) = [] \<and> length ps = 15"
  let ?s = "snd (create_contacts ps s user)"
  let ?created = "fst (create_contacts ps s user)"
  have o: "filter (\<lambda>c. Contact.owner_id c = UserDB.id user) (contacts ?s) = ?created"
    using a by (simp add: owned_create_contacts)
  have n: "length ?created = 15"
    using a by (simp add: length_create_contacts)
  have m: "mset (row_order ?created) = mset ?created" using assms by blast
  have l: "length (row_order ?created) = 15" using mset_eq_length [OF m] n by simp
  have 1: "read_contacts row_order out_of_range 10 10 ?s user
             = Inr (take 10 (drop 10 (row_order ?created)))"
    by (simp add: read_contacts_in_range o)
  have 2: "length (take 10 (drop 10 (row_order ?created))) = 5" using l by simp
  have 3: "set (take 10 (drop 10 (row_order ?created))) \<subseteq> set ?created"
    using page_subset [of row_order ?created 10 10] m by simp
  from 1 2 3
  show "\<exists>page. read_contacts row_order out_of_range 10 10 (snd (create_contacts ps s user)) user
                   = Inr page
            \<and> length page = 5
            \<and> set page \<subseteq> set (fst (create_contacts ps s user))"
    by blast
  show "read_contacts (\<lambda>rows. rows) out_of_range 10 10 (snd (create_contacts ps s user)) user
             = Inr (drop 10 (fst (create_contacts ps s user)))"
    using n by (simp add: read_contacts_in_range o)
qed

text \<open>
  User A creates fifteen contacts on a database that returns the rows in table order;
  skip 10 and limit 10 give the rows with the keys 11 to 15, and a limit of one million is
  accepted and returns every row.
\<close>

theorem read_contacts_page_witness:
  "(\<forall>rows::Contact list. mset rows = mset rows)
   \<and> filter (\<lambda>c. Contact.owner_id c = UserDB.id user_A) (contacts db_0) = [] \<and> length fifteen = 15
   \<and> read_contacts (\<lambda>rows. rows) refuse 10 10 (snd (create_contacts fifteen db_0 user_A)) user_A
       = Inr (drop 10 (fst (create_contacts fifteen db_0 user_A)))
   \<and> map Contact.id (drop 10 (fst (create_contacts fifteen db_0 user_A))) = [11, 12, 13, 14, 15]
   \<and> read_contacts (\<lambda>rows. rows) refuse 0 1 db_1 user_A = Inr (contacts db_1)
   \<and> read_contacts (\<lambda>rows. rows) refuse 0 1000000 db_1 user_A = Inr (contacts db_1)"
proof -
  have h: "\<forall>rows::Contact list. mset ((\<lambda>rows. rows) rows) = mset rows" by simp
  have o: "filter (\<lambda>c. Contact.owner_id c = UserDB.id user_A) (contacts db_0) = []" by (simp add: db_0_def)
  have l: "length fifteen = 15" by (simp add: fifteen_def)
  have i: "map Contact.id (drop 10 (fst (create_contacts fifteen db_0 user_A))) = [11, 12, 13, 14, 15]"
    by (simp add: drop_map [symmetric] created_fifteen)
  have w: "filter (\<lambda>c. Contact.owner_id c = UserDB.id user_A) (contacts db_1) = contacts db_1"
    by (simp add: db_1_contacts user_A_def)
  note t = read_contacts_page [OF h, of refuse db_1 user_A]
  note u = read_contacts_page [OF h, of refuse db_0 user_A]
  have b: "(0::int) \<le> 0 \<and> (0::int) < 2 ^ 63 \<and> (0::int) \<le> 1 \<and> (1::int) < 2 ^ 63" by simp
  have c: "(0::int) \<le> 0 \<and> (0::int) < 2 ^ 63 \<and> (0::int) \<le> 1000000 \<and> (1000000::int) < 2 ^ 63"
    by simp
  from t b have "read_contacts (\<lambda>rows. rows) refuse 0 1 db_1 user_A
      = Inr (take (nat 1) (drop (nat 0) (filter (\<lambda>c. Contact.owner_id c = UserDB.id user_A) (contacts db_1))))"
    by blast
  then have p1: "read_contacts (\<lambda>rows. rows) refuse 0 1 db_1 user_A = Inr (contacts db_1)"
    unfolding w by (simp add: db_1_contacts)
  from t c have "read_contacts (\<lambda>rows. rows) refuse 0 1000000 db_1 user_A
      = Inr (take (nat 1000000) (drop (nat 0) (filter (\<lambda>c. Contact.owner_id c = UserDB.id user_A) (contacts db_1))))"
    by blast
  then have p2: "read_contacts (\<lambda>rows. rows) refuse 0 1000000 db_1 user_A = Inr (contacts db_1)"
    unfolding w by (simp add: db_1_contacts)
  from u o l
  have "read_contacts (\<lambda>rows. rows) refuse 10 10 (snd (create_contacts fifteen db_0 user_A)) user_A
       = Inr (drop 10 (fst (create_contacts fifteen db_0 user_A)))"
    by blast
  with o l i p1 p2 show ?thesis by simp
qed

text \<open>
  C4 as stated fails on the birthday. The payload's birthday is a \<^verbatim>\<open>datetime\<close>, the column a
  \<^verbatim>\<open>Date\<close>: an update with the birthday 1815-12-10 10:30 stores and returns 1815-12-10, the
  record read back through the schema differs from the payload, and the same update with
  the birthday at midnight has the same result and leaves the same tables.
\<close>

theorem update_contact_drops_time_of_day:
  "fst (update_contact 1 payload_1 db_1 user_A)
     = Inr \<lparr>Contact.id = 1, first_name = ''Ada'', last_name = ''Lovelace'',
            email = ''ada@example.com'', phone_number = ''+44 1'', birthday = Date 1815 12 10,
            additional_info = None, owner_id = 1\<rparr>
   \<and> ContactCreate.birthday payload_1 = Datetime (Date 1815 12 10) 10 30 0 0
   \<and> ContactCreate_from_orm
        \<lparr>Contact.id = 1, first_name = ''Ada'', last_name = ''Lovelace'',
         email = ''ada@example.com'', phone_number = ''+44 1'', birthday = Date 1815 12 10,
         additional_info = None, owner_id = 1\<rparr> \<noteq> payload_1
   \<and> update_contact 1 (payload_1\<lparr>ContactCreate.birthday := Datetime (Date 1815 12 10) 0 0 0 0\<rparr>)
        db_1 user_A
     = update_contact 1 payload_1 db_1 user_A"
  by (simp add: update_contact_def query_contact_def db_1_contacts set_fields_def payload_1_def
        user_A_def ContactCreate_from_orm_def)

text \<open>
  C4, as amended. For a contact \<open>c\<close> of the caller, the update replaces first name, last
  name, email, phone number and note of \<open>c\<close> by the values of the payload and the birthday
  by the calendar date of the payload's birthday (the column is a \<^verbatim>\<open>Date\<close>; the time of day
  is not stored); no other row changes, the updated row is returned, and reading the contact
  afterwards gives the same row.
\<close>

theorem update_contact_replaces_fields:
  assumes "distinct (map Contact.id (contacts s))" and "c \<in> set (contacts s)"
      and "Contact.owner_id c = UserDB.id user"
  shows "fst (update_contact (Contact.id c) f s user)
           = Inr (c\<lparr>Contact.first_name := ContactCreate.first_name f,
                    Contact.last_name := ContactCreate.last_name f,
                    Contact.email := ContactCreate.email f,
                    Contact.phone_number := ContactCreate.phone_number f,
                    Contact.birthday := date_of (ContactCreate.birthday f),
                    Contact.additional_info := ContactCreate.additional_info f\<rparr>)
       \<and> contacts (snd (update_contact (Contact.id c) f s user))
           = map (\<lambda>r. if r = c
                       then c\<lparr>Contact.first_name := ContactCreate.first_name f,
                              Contact.last_name := ContactCreate.last_name f,
                              Contact.email := ContactCreate.email f,
                              Contact.phone_number := ContactCreate.phone_number f,
                              Contact.birthday := date_of (ContactCreate.birthday f),
                              Contact.additional_info := ContactCreate.additional_info f\<rparr>
                       else r) (contacts s)
       \<and> read_contact (Contact.id c) (snd (update_contact (Contact.id c) f s user)) user
           = fst (update_contact (Contact.id c) f s user)"
proof -
  have q: "query_contact (Contact.id c) s user = Some c"
    using assms by (rule query_contact_owned)
  have 1: "fst (update_contact (Contact.id c) f s user) = Inr (set_fields c f)"
    by (simp add: update_contact_def q)
  have 2: "contacts (snd (update_contact (Contact.id c) f s user))
         = map (\<lambda>r. if r = c then set_fields c f else r) (contacts s)"
    using map_only_key [OF assms(1,2), of "\<lambda>r. set_fields r f"]
    by (simp add: update_contact_def q)
  have d: "distinct (map Contact.id (contacts (snd (update_contact (Contact.id c) f s user))))"
    unfolding update_contact_keys by (rule assms(1))
  have m: "set_fields c f \<in> set (contacts (snd (update_contact (Contact.id c) f s user)))"
    using assms(2) by (auto simp: 2)
  have "query_contact (Contact.id (set_fields c f))
          (snd (update_contact (Contact.id c) f s user)) user = Some (set_fields c f)"
    using d m by (rule query_contact_owned) (simp add: set_fields_def assms(3))
  then have 3: "read_contact (Contact.id c) (snd (update_contact (Contact.id c) f s user)) user
           = Inr (set_fields c f)"
    by (simp add: read_contact_def set_fields_def)
  show ?thesis using 1 2 3 by (simp add: set_fields_def)
qed

text \<open>
  User A replaces the fields of contact 1; the stored birthday is the date 1815-12-10.
\<close>

theorem update_contact_replaces_fields_witness:
  "distinct (map Contact.id (contacts db_1))
   \<and> fst (create_contact payload_2 db_0 user_A) \<in> set (contacts db_1)
   \<and> Contact.owner_id (fst (create_contact payload_2 db_0 user_A)) = UserDB.id user_A
   \<and> fst (update_contact 1 payload_1 db_1 user_A)
       = Inr \<lparr>Contact.id = 1, first_name = ''Ada'', last_name = ''Lovelace'',
              email = ''ada@example.com'', phone_number = ''+44 1'', birthday = Date 1815 12 10,
              additional_info = None, owner_id = 1\<rparr>
   \<and> read_contact 1 (snd (update_contact 1 payload_1 db_1 user_A)) user_A
       = fst (update_contact 1 payload_1 db_1 user_A)"
proof -
  have c: "fst (create_contact payload_2 db_0 user_A)
       = \<lparr>Contact.id = 1, first_name = ''Alan'', last_name = ''Turing'', email = ''alan@example.com'',
       phone_number = ''+44 2'', birthday = Date 1912 6 23, additional_info = Some ''Bletchley'',
       owner_id = 1\<rparr>"
    by (simp add: create_contact_def db_0_def next_id_def payload_2_def user_A_def Let_def)
  show ?thesis
    using update_contact_replaces_fields [OF row_1_owned(1,2,3), of payload_1] row_1_owned
    by (simp add: c payload_1_def)
qed

text \<open>
  C5. Deleting a contact \<open>c\<close> of the caller returns \<open>c\<close> as it was stored and removes exactly
  that row: the other rows stay, in their order, and the user table is untouched. For an id
  under which the caller owns no contact the handler fails with status 404 (not 500) and
  changes nothing.
\<close>

theorem delete_contact_removes:
  "(distinct (map Contact.id (contacts s)) \<and> c \<in> set (contacts s)
      \<and> Contact.owner_id c = UserDB.id user \<longrightarrow>
        fst (delete_contact (Contact.id c) s user) = Inr c
      \<and> contacts (snd (delete_contact (Contact.id c) s user)) = filter (\<lambda>r. r \<noteq> c) (contacts s)
      \<and> c \<notin> set (contacts (snd (delete_contact (Contact.id c) s user)))
      \<and> users (snd (delete_contact (Contact.id c) s user)) = users s)
   \<and> ((\<forall>r \<in> set (contacts s). Contact.id r = contact_id \<longrightarrow> Contact.owner_id r \<noteq> UserDB.id user) \<longrightarrow>
        delete_contact contact_id s user = (Inl (HTTPException 404 ''Contact not found''), s)
      \<and> status_code (HTTPException 404 ''Contact not found'') \<noteq> 500)"
proof (intro conjI impI)
  assume a: "distinct (map Contact.id (contacts s)) \<and> c \<in> set (contacts s)
      \<and> Contact.owner_id c = UserDB.id user"
  then have q: "query_contact (Contact.id c) s user = Some c"
    by (simp add: query_contact_owned)
  show "fst (delete_contact (Contact.id c) s user) = Inr c"
    by (simp add: delete_contact_def q)
  show r: "contacts (snd (delete_contact (Contact.id c) s user)) = filter (\<lambda>r. r \<noteq> c) (contacts s)"
    using a by (simp add: delete_contact_def q filter_other_keys)
  show "c \<notin> set (contacts (snd (delete_contact (Contact.id c) s user)))"
    by (simp add: r)
  show "users (snd (delete_contact (Contact.id c) s user)) = users s"
    by (simp add: delete_contact_def q)
next
  assume "\<forall>r \<in> set (contacts s). Contact.id r = contact_id \<longrightarrow> Contact.owner_id r \<noteq> UserDB.id user"
  then have "query_contact contact_id s user = None"
    by (simp add: query_contact_None_iff)
  then show "delete_contact contact_id s user = (Inl (HTTPException 404 ''Contact not found''), s)"
    by (simp add: delete_contact_def)
next
  show "status_code (HTTPException 404 ''Contact not found'') \<noteq> 500" by simp
qed

text \<open>
  User A deletes contact 1 and gets the row back, the table is empty again; contact 7 does
  not exist and answers 404.
\<close>

theorem delete_contact_removes_witness:
  "distinct (map Contact.id (contacts db_1))
   \<and> fst (create_contact payload_2 db_0 user_A) \<in> set (contacts db_1)
   \<and> Contact.owner_id (fst (create_contact payload_2 db_0 user_A)) = UserDB.id user_A
   \<and> delete_contact 1 db_1 user_A = (Inr (fst (create_contact payload_2 db_0 user_A)), db_0)
   \<and> 7 \<notin> set (map Contact.id (contacts db_1))
   \<and> delete_contact 7 db_1 user_A = (Inl (HTTPException 404 ''Contact not found''), db_1)
   \<and> delete_contact 1 db_0 user_A = (Inl (HTTPException 404 ''Contact not found''), db_0)"
proof -
  have n: "\<forall>r \<in> set (contacts db_1). Contact.id r = 7 \<longrightarrow> Contact.owner_id r \<noteq> UserDB.id user_A"
    by (simp add: db_1_contacts)
  have m: "\<forall>r \<in> set (contacts db_0). Contact.id r = 1 \<longrightarrow> Contact.owner_id r \<noteq> UserDB.id user_A"
    by (simp add: db_0_def)
  have e: "db_1\<lparr>contacts := []\<rparr> = db_0"
    by (simp add: db_1_def create_contact_def db_0_def Let_def)
  have d: "delete_contact 1 db_1 user_A = (Inr (fst (create_contact payload_2 db_0 user_A)), db_0)"
  proof -
    from delete_contact_removes [of db_1 "fst (create_contact payload_2 db_0 user_A)" user_A 7] row_1_owned
    have 1: "fst (delete_contact 1 db_1 user_A) = Inr (fst (create_contact payload_2 db_0 user_A))"
      and 2: "contacts (snd (delete_contact 1 db_1 user_A))
          = filter (\<lambda>r. r \<noteq> fst (create_contact payload_2 db_0 user_A)) (contacts db_1)"
      and 3: "users (snd (delete_contact 1 db_1 user_A)) = users db_1"
      by simp_all
    have "snd (delete_contact 1 db_1 user_A) = db_0"
      using 2 3 by (simp add: db_1_def create_contact_def db_0_def Let_def)
    with 1 show ?thesis by (simp add: prod_eq_iff)
  qed
  from delete_contact_removes [of db_1 "fst (create_contact payload_2 db_0 user_A)" user_A 7] n
  have d7: "delete_contact 7 db_1 user_A = (Inl (HTTPException 404 ''Contact not found''), db_1)"
    by blast
  from delete_contact_removes [of db_0 "fst (create_contact payload_2 db_0 user_A)" user_A 1] m
  have d1: "delete_contact 1 db_0 user_A = (Inl (HTTPException 404 ''Contact not found''), db_0)"
    by blast
  have k: "7 \<notin> set (map Contact.id (contacts db_1))"
    by (simp add: db_1_contacts)
  from row_1_owned k d d7 d1 show ?thesis by blast
qed

text \<open>
  C6. The strategy gives a token a lifetime of 3600 seconds, but the protected endpoints do
  not answer an expired token with 401. The backend has no transport and the dependency is
  declared as the factory itself, so it raises before any token is read: a token issued at
  second 1000 gets status 500 at second 4601, when it has expired, and the same 500 at
  second 4599, when it is still good.
\<close>

theorem expired_token_is_answered_500:
  "lifetime_seconds (get_strategy (auth_backend ''s3cr3t'')) = Some 3600
   \<and> exp (write_token (get_strategy (auth_backend ''s3cr3t'')) 1000 user_A) = Some 4600
   \<and> protected (auth_backend ''s3cr3t'') 4601
        (Some (write_token (get_strategy (auth_backend ''s3cr3t'')) 1000 user_A)) db_1
        (read_contact 1 db_1)
      = Inl (HTTPException 500 ''Internal Server Error'')
   \<and> protected (auth_backend ''s3cr3t'') 4599
        (Some (write_token (get_strategy (auth_backend ''s3cr3t'')) 1000 user_A)) db_1
        (read_contact 1 db_1)
      = Inl (HTTPException 500 ''Internal Server Error'')"
  by (simp add: protected_def current_user_def auth_backend_def get_jwt_strategy_def
        write_token_def)

text \<open>
  C7. When the host answers the upload of the bytes \<open>b\<close> with a URL, the handler returns
  that URL under \<^verbatim>\<open>avatar_url\<close>, the user object has it as its avatar, and the tables, the
  stored avatar of the user included, are what they were. The host is asked about \<open>b\<close> and
  nothing else.
\<close>

theorem upload_avatar_in_memory_only:
  assumes "upload b = Some result" and "result ''url'' = Some url"
  shows "upload_avatar upload (UserDB.id u) b u s
           = (Inr [(''avatar_url'', url)], u\<lparr>UserDB.avatar := Some url\<rparr>, s)
       \<and> (\<forall>upload'. upload' b = upload b \<longrightarrow>
             upload_avatar upload' (UserDB.id u) b u s = upload_avatar upload (UserDB.id u) b u s)"
  using assms by (simp add: upload_avatar_def)

text \<open>
  User A uploads three bytes; the stored avatars are still empty.
\<close>

theorem upload_avatar_in_memory_only_witness:
  "host ''png'' = Some (map_of [(''public_id'', ''p1''), (''url'', ''http://img.example/png'')])
   \<and> map_of [(''public_id'', ''p1''), (''url'', ''http://img.example/png'')] ''url''
       = Some ''http://img.example/png''
   \<and> upload_avatar host (UserDB.id user_A) ''png'' user_A db_1
       = (Inr [(''avatar_url'', ''http://img.example/png'')],
          user_A\<lparr>UserDB.avatar := Some ''http://img.example/png''\<rparr>, db_1)
   \<and> map UserDB.avatar (users db_1) = [None, None]"
proof -
  have a: "host ''png'' = Some (map_of [(''public_id'', ''p1''), (''url'', ''http://img.example/png'')])"
    by (simp add: host_def)
  have b: "map_of [(''public_id'', ''p1''), (''url'', ''http://img.example/png'')] ''url''
       = Some ''http://img.example/png''"
    by simp
  have c: "map UserDB.avatar (users db_1) = [None, None]"
    by (simp add: db_1_def create_contact_def db_0_def user_A_def user_B_def Let_def)
  from upload_avatar_in_memory_only
         [of host "''png''" "map_of [(''public_id'', ''p1''), (''url'', ''http://img.example/png'')]"
             "''http://img.example/png''" user_A db_1] a b c
  show ?thesis by blast
qed

text \<open>
  C8. No answer has a field \<^verbatim>\<open>hashed_password\<close>: not the answers through \<^verbatim>\<open>UserRead\<close>
  (registration and the user routes), not the avatar answer, not the answers of the five
  contact endpoints, errors included; and an answer through \<^verbatim>\<open>UserRead\<close> is the same
  whatever the stored hash is.
\<close>

theorem responses_omit_hashed_password:
  "''hashed_password''
     \<notin> body_keys (body (user_response (fst (UserManager_create store hash new_user safe s))))
   \<and> ''hashed_password'' \<notin> body_keys (body (user_response r))
   \<and> user_response (Inr (u\<lparr>hashed_password := h\<rparr>)) = user_response (Inr u)
   \<and> ''hashed_password''
       \<notin> body_keys (body (avatar_response (fst (upload_avatar upload user_id file user s))))
   \<and> ''hashed_password''
       \<notin> body_keys (body (contact_response (Inr (fst (create_contact contact s user)))))
   \<and> ''hashed_password''
       \<notin> body_keys (body (contacts_response (read_contacts row_order out_of_range skip limit s user)))
   \<and> ''hashed_password'' \<notin> body_keys (body (contact_response (read_contact contact_id s user)))
   \<and> ''hashed_password''
       \<notin> body_keys (body (contact_response (fst (update_contact contact_id contact s user))))
   \<and> ''hashed_password''
       \<notin> body_keys (body (contact_response (fst (delete_contact contact_id s user))))"
proof (intro conjI)
  show "user_response (Inr (u\<lparr>hashed_password := h\<rparr>)) = user_response (Inr u)"
    by (simp add: user_response_def UserRead_from_orm_def)
qed (rule hash_not_in_contact_response hash_not_in_contacts_response
       hash_not_in_user_response hash_not_in_avatar_response)+

text \<open>
  The answer for user A has the fields id, email and avatar.
\<close>

theorem responses_omit_hashed_password_witness:
  "''hashed_password'' \<notin> body_keys (body (user_response (Inr user_A)))
   \<and> body (user_response (Inr user_A))
       = Object [(''id'', JInt 1), (''email'', JStr ''a@example.com''), (''avatar'', JNull)]
   \<and> ''hashed_password''
       \<notin> body_keys (body (user_response (fst (UserManager_create taken rev user_C False db_0))))
   \<and> ''hashed_password'' \<notin> body_keys (body (contact_response (read_contact 1 db_1 user_A)))
   \<and> ''hashed_password'' \<notin> body_keys (body (contact_response (read_contact 1 db_1 user_B)))"
proof -
  have "body (user_response (Inr user_A))
       = Object [(''id'', JInt 1), (''email'', JStr ''a@example.com''), (''avatar'', JNull)]"
    by (simp add: user_response_def UserRead_dict_def UserRead_from_orm_def JOptional_def
        user_A_def)
  moreover have "''hashed_password'' \<notin> body_keys (body (user_response (Inr user_A)))"
    by (rule responses_omit_hashed_password [THEN conjunct2, THEN conjunct1])
  moreover have "''hashed_password''
      \<notin> body_keys (body (user_response (fst (UserManager_create taken rev user_C False db_0))))"
    by (rule responses_omit_hashed_password [THEN conjunct1])
  moreover have "''hashed_password'' \<notin> body_keys (body (contact_response (read_contact 1 db_1 user_A)))"
    "''hashed_password'' \<notin> body_keys (body (contact_response (read_contact 1 db_1 user_B)))"
    by (rule responses_omit_hashed_password [THEN conjunct2, THEN conjunct2, THEN conjunct2,
          THEN conjunct2, THEN conjunct2, THEN conjunct2, THEN conjunct1])+
  ultimately show ?thesis by blast
qed

text \<open>
  C9. An update leaves the id and the owner of every row as they were, row by row, and
  leaves the user table and the rows with another id alone; the row it returns has the id
  and the owner of the row it found. The six fields of the payload are all it can change.
\<close>

theorem update_contact_frame:
  "map Contact.id (contacts (snd (update_contact contact_id f s user))) = map Contact.id (contacts s)
   \<and> map Contact.owner_id (contacts (snd (update_contact contact_id f s user)))
       = map Contact.owner_id (contacts s)
   \<and> users (snd (update_contact contact_id f s user)) = users s
   \<and> (\<forall>r \<in> set (contacts s). Contact.id r \<noteq> contact_id \<longrightarrow>
         r \<in> set (contacts (snd (update_contact contact_id f s user))))
   \<and> (\<forall>c. query_contact contact_id s user = Some c \<longrightarrow>
         (\<exists>c'. fst (update_contact contact_id f s user) = Inr c'
            \<and> Contact.id c' = Contact.id c \<and> Contact.owner_id c' = Contact.owner_id c))"
proof (cases "query_contact contact_id s user")
  case None
  then show ?thesis by (simp add: update_contact_def)
next
  case (Some c)
  then have i: "Contact.id c = contact_id" by (simp add: query_contact_SomeD)
  have 1: "map Contact.id (contacts (snd (update_contact contact_id f s user)))
         = map Contact.id (contacts s)"
    by (rule update_contact_keys)
  have 2: "map Contact.owner_id (contacts (snd (update_contact contact_id f s user)))
       = map Contact.owner_id (contacts s)"
    by (simp add: update_contact_def Some comp_def if_distrib [of Contact.owner_id]
          set_fields_keeps cong: if_cong)
  have 3: "users (snd (update_contact contact_id f s user)) = users s"
    by (simp add: update_contact_def Some)
  have 4: "\<forall>r \<in> set (contacts s). Contact.id r \<noteq> contact_id \<longrightarrow>
         r \<in> set (contacts (snd (update_contact contact_id f s user)))"
  proof (intro ballI impI)
    fix r assume r: "r \<in> set (contacts s)" "Contact.id r \<noteq> contact_id"
    then have "r = (\<lambda>r. if Contact.id r = Contact.id c then set_fields r f else r) r"
      using i by simp
    with r(1)
    have "r \<in> (\<lambda>r. if Contact.id r = Contact.id c then set_fields r f else r) ` set (contacts s)"
      by (rule rev_image_eqI)
    then show "r \<in> set (contacts (snd (update_contact contact_id f s user)))"
      by (simp add: update_contact_def Some)
  qed
  have 5: "\<forall>c. query_contact contact_id s user = Some c \<longrightarrow>
         (\<exists>c'. fst (update_contact contact_id f s user) = Inr c'
            \<and> Contact.id c' = Contact.id c \<and> Contact.owner_id c' = Contact.owner_id c)"
    by (simp add: update_contact_def Some set_fields_keeps)
  from 1 2 3 4 5 show ?thesis by blast
qed

text \<open>
  After user A's update of contact 1 the row still has id 1 and owner 1.
\<close>

theorem update_contact_frame_witness:
  "query_contact 1 db_1 user_A = Some (fst (create_contact payload_2 db_0 user_A))
   \<and> map Contact.id (contacts (snd (update_contact 1 payload_1 db_1 user_A))) = [1]
   \<and> map Contact.owner_id (contacts (snd (update_contact 1 payload_1 db_1 user_A))) = [1]
   \<and> (\<exists>c'. fst (update_contact 1 payload_1 db_1 user_A) = Inr c'
         \<and> Contact.id c' = 1 \<and> Contact.owner_id c' = 1)"
proof -
  have q: "query_contact 1 db_1 user_A = Some (fst (create_contact payload_2 db_0 user_A))"
    by (simp add: query_contact_def db_1_def create_contact_def db_0_def next_id_def user_A_def Let_def)
  have i: "Contact.id (fst (create_contact payload_2 db_0 user_A)) = 1"
       "Contact.owner_id (fst (create_contact payload_2 db_0 user_A)) = 1"
    by (simp_all add: create_contact_def db_0_def next_id_def user_A_def Let_def)
  have m: "map Contact.id (contacts db_1) = [1]" "map Contact.owner_id (contacts db_1) = [1]"
    by (simp_all add: db_1_contacts)
  from update_contact_frame [of 1 payload_1 db_1 user_A] q i m
  show ?thesis by simp
qed

text \<open>
  C10. The answers of the five contact endpoints, errors included, have no field \<^verbatim>\<open>id\<close>,
  and an answer is the same whatever the ids of the rows in it are.
\<close>

theorem contact_responses_omit_id:
  "''id'' \<notin> body_keys (body (contact_response (Inr (fst (create_contact contact s user)))))
   \<and> ''id'' \<notin> body_keys (body (contacts_response (read_contacts row_order out_of_range skip limit s user)))
   \<and> ''id'' \<notin> body_keys (body (contact_response (read_contact contact_id s user)))
   \<and> ''id'' \<notin> body_keys (body (contact_response (fst (update_contact contact_id contact s user))))
   \<and> ''id'' \<notin> body_keys (body (contact_response (fst (delete_contact contact_id s user))))
   \<and> contact_response (Inr (c\<lparr>Contact.id := k\<rparr>)) = contact_response (Inr c)
   \<and> contacts_response (Inr (map (\<lambda>c. c\<lparr>Contact.id := g c\<rparr>) cs)) = contacts_response (Inr cs)"
proof (intro conjI)
  show "contact_response (Inr (c\<lparr>Contact.id := k\<rparr>)) = contact_response (Inr c)"
    by (simp add: contact_response_def from_orm_ignores_id)
  show "contacts_response (Inr (map (\<lambda>c. c\<lparr>Contact.id := g c\<rparr>) cs)) = contacts_response (Inr cs)"
    by (simp add: contacts_response_def from_orm_ignores_id comp_def)
qed (rule id_not_in_contact_response id_not_in_contacts_response)+

text \<open>
  The answer for contact 1 has the six fields of the schema and no id.
\<close>

theorem contact_responses_omit_id_witness:
  "''id'' \<notin> body_keys (body (contact_response (read_contact 1 db_1 user_A)))
   \<and> body (contact_response (read_contact 1 db_1 user_A))
       = Object [(''first_name'', JStr ''Alan''), (''last_name'', JStr ''Turing''),
                 (''email'', JStr ''alan@example.com''), (''phone_number'', JStr ''+44 2''),
                 (''birthday'', JDatetime (Datetime (Date 1912 6 23) 0 0 0 0)),
                 (''additional_info'', JStr ''Bletchley'')]
   \<and> ''id'' \<notin> body_keys (body (contacts_response (read_contacts table_order refuse 0 10 db_1 user_A)))
   \<and> ''id'' \<notin> body_keys (body (contact_response (read_contact 1 db_1 user_B)))"
proof -
  have "body (contact_response (read_contact 1 db_1 user_A))
       = Object [(''first_name'', JStr ''Alan''), (''last_name'', JStr ''Turing''),
                 (''email'', JStr ''alan@example.com''), (''phone_number'', JStr ''+44 2''),
                 (''birthday'', JDatetime (Datetime (Date 1912 6 23) 0 0 0 0)),
                 (''additional_info'', JStr ''Bletchley'')]"
    by (simp add: contact_response_def read_contact_def query_contact_def db_1_contacts
          user_A_def ContactCreate_dict_def ContactCreate_from_orm_def JOptional_def)
  moreover have "''id'' \<notin> body_keys (body (contact_response (read_contact 1 db_1 user_A)))"
    "''id'' \<notin> body_keys (body (contact_response (read_contact 1 db_1 user_B)))"
    by (rule contact_responses_omit_id [THEN conjunct2, THEN conjunct2, THEN conjunct1])+
  moreover have "''id'' \<notin> body_keys (body (contacts_response (read_contacts table_order refuse 0 10 db_1 user_A)))"
    by (rule contact_responses_omit_id [THEN conjunct2, THEN conjunct1])
  ultimately show ?thesis by blast
qed

end
